theory Spec2Isabelle
  imports Complex_Main
begin

section \<open>Errors\<close>

text \<open>
  The callbacks of \<^verbatim>\<open>geovizpy.py\<close> raise nothing themselves; the only exception they can
  meet is Python's \<^verbatim>\<open>IndexError\<close>, from indexing \<^verbatim>\<open>state.visibilityList\<close>,
  \<^verbatim>\<open>actor_profile\<close>, \<^verbatim>\<open>actor_dem\<close> or \<^verbatim>\<open>actor_cmd\<close> out of range. The other
  constructors are the error names of the specification's taxonomy; no line of the source
  constructs them.
\<close>

datatype error =
    IndexError
  | InvalidInputError
  | GeoreferenceMismatchError
  | InvalidRangeError

section \<open>Render actors\<close>

text \<open>
  What \<^verbatim>\<open>pl.add_mesh\<close> returns: the source reads and writes three properties of an actor,
  its visibility flag, the opacity of its property object and the scalar range of its
  mapper. Numbers are Python floats; they are modelled as reals (no NaN, no rounding).
\<close>

record actor =
  get_visibility :: bool
  get_opacity :: real
  scalar_range :: "real \<times> real"

definition SetVisibility :: "bool \<Rightarrow> actor \<Rightarrow> actor" where
  \<comment> \<open>\<^verbatim>\<open>actor.SetVisibility(flag)\<close>: stores the flag.\<close>
  "SetVisibility flag a = a\<lparr>get_visibility := flag\<rparr>"

definition SetOpacity :: "real \<Rightarrow> actor \<Rightarrow> actor" where
  \<comment> \<open>Modelled from the spec: \<^verbatim>\<open>actor.GetProperty().SetOpacity(v)\<close> is a method of the
      rendering library, which is not part of the source. The specification (4.3, 8) says
      that the opacity is clamped to the interval from 0 to 1 and that nothing is rejected.\<close>
  "SetOpacity v a = a\<lparr>get_opacity := (if v < 0 then 0 else if 1 < v then 1 else v)\<rparr>"

definition set_mapper_scalar_range :: "real \<times> real \<Rightarrow> actor \<Rightarrow> actor" where
  \<comment> \<open>\<^verbatim>\<open>actor.mapper.scalar_range = r\<close>: an attribute assignment, with no check in the source.\<close>
  "set_mapper_scalar_range r a = a\<lparr>scalar_range := r\<rparr>"

section \<open>Application state\<close>

text \<open>
  Which actor a call addresses: \<^verbatim>\<open>actor_profile[num]\<close>, \<^verbatim>\<open>actor_dem[0]\<close> or
  \<^verbatim>\<open>actor_cmd[0]\<close>.
\<close>

datatype layer_ref = Profile nat | DEM | CMD

text \<open>
  Everything a callback does that is visible outside it, in the order it happens:
  \<^verbatim>\<open>state.dirty(name)\<close>, the three actor mutations, and \<^verbatim>\<open>ctrl.view_update()\<close>, the redraw
  signal.
\<close>

datatype effect =
    Dirty string
  | ActorSetVisibility layer_ref bool
  | ActorSetOpacity layer_ref real
  | MapperScalarRange layer_ref "real \<times> real"
  | ViewUpdate

text \<open>
  The module-level mutable objects the callbacks share (lines 184 to 189): the three
  visibility lists of the UI state, the three actor lists, and \<^verbatim>\<open>len(mesh)\<close>, the number
  of profile meshes read at start-up. \<open>trace\<close> is the chronological list of effects.
\<close>

record app_state =
  visibilityList :: "bool list"
  visibilityDEM :: "bool list"
  visibilityCMD :: "bool list"
  actor_profile :: "actor list"
  actor_dem :: "actor list"
  actor_cmd :: "actor list"
  len_mesh :: nat
  trace :: "effect list"

text \<open>
  A callback either returns or raises; an exception leaves the mutations made before it in
  place, so both outcomes carry the state.
\<close>

datatype outcome = Raised error app_state | Returned app_state

fun final :: "outcome \<Rightarrow> app_state" where
  "final (Raised e st) = st"
| "final (Returned st) = st"

fun raised :: "outcome \<Rightarrow> error option" where
  "raised (Raised e st) = Some e"
| "raised (Returned st) = None"

fun and_then :: "outcome \<Rightarrow> (app_state \<Rightarrow> outcome) \<Rightarrow> outcome" where
  \<comment> \<open>Statement sequencing: what follows a raising statement is not run.\<close>
  "and_then (Raised e st) f = Raised e st"
| "and_then (Returned st) f = f st"

fun for_range :: "nat list \<Rightarrow> (nat \<Rightarrow> app_state \<Rightarrow> outcome) \<Rightarrow> app_state \<Rightarrow> outcome" where
  \<comment> \<open>\<^verbatim>\<open>for i in range(n): body(i)\<close>, over the list of indices \<open>[0..<n]\<close>.\<close>
  "for_range [] body st = Returned st"
| "for_range (i # is) body st = and_then (body i st) (for_range is body)"

definition emit :: "effect \<Rightarrow> app_state \<Rightarrow> app_state" where
  "emit e st = st\<lparr>trace := trace st @ [e]\<rparr>"

definition view_update :: "app_state \<Rightarrow> app_state" where
  \<comment> \<open>\<^verbatim>\<open>ctrl.view_update()\<close>\<close>
  "view_update st = emit ViewUpdate st"

definition redraws :: "app_state \<Rightarrow> nat" where
  \<comment> \<open>The signal counter: how many redraw signals have been emitted so far.\<close>
  "redraws st = length (filter (\<lambda>e. e = ViewUpdate) (trace st))"

section \<open>Show and hide (lines 230 to 256)\<close>

text \<open>
  Indices are natural numbers: the loops pass \<^verbatim>\<open>range(len(mesh))\<close> and the check boxes pass
  list positions, so Python's negative indices do not arise. An index past the end of a
  list raises \<^verbatim>\<open>IndexError\<close>; a list indexed at 0 raises it when it is empty.
\<close>

definition hide_profile :: "nat \<Rightarrow> bool \<Rightarrow> app_state \<Rightarrow> outcome" where
  "hide_profile num flag st =
     (if num < length (actor_profile st)
      then Returned (view_update (emit (ActorSetVisibility (Profile num) flag)
             (st\<lparr>actor_profile := (actor_profile st)[num := SetVisibility flag (actor_profile st ! num)]\<rparr>)))
      else Raised IndexError st)"

definition hide_DEM :: "bool \<Rightarrow> app_state \<Rightarrow> outcome" where
  "hide_DEM flag st =
     (case actor_dem st of
        [] \<Rightarrow> Raised IndexError st
      | a # as \<Rightarrow> Returned (view_update (emit (ActorSetVisibility DEM flag)
                   (st\<lparr>actor_dem := SetVisibility flag a # as\<rparr>))))"

definition hide_CMD :: "bool \<Rightarrow> app_state \<Rightarrow> outcome" where
  "hide_CMD flag st =
     (case actor_cmd st of
        [] \<Rightarrow> Raised IndexError st
      | a # as \<Rightarrow> Returned (view_update (emit (ActorSetVisibility CMD flag)
                   (st\<lparr>actor_cmd := SetVisibility flag a # as\<rparr>))))"

definition update_profile_visibility :: "nat \<Rightarrow> bool \<Rightarrow> app_state \<Rightarrow> outcome" where
  "update_profile_visibility index visibility st =
     (if index < length (visibilityList st)
      then hide_profile index visibility
             (emit (Dirty ''visibilityList'')
                (st\<lparr>visibilityList := (visibilityList st)[index := visibility]\<rparr>))
      else Raised IndexError st)"

definition update_DEM_visibility :: "bool \<Rightarrow> app_state \<Rightarrow> outcome" where
  "update_DEM_visibility visibility st =
     (case visibilityDEM st of
        [] \<Rightarrow> Raised IndexError st
      | v # vs \<Rightarrow> hide_DEM visibility
                   (emit (Dirty ''visibilityDEM'') (st\<lparr>visibilityDEM := visibility # vs\<rparr>)))"

definition update_CMD_visibility :: "bool \<Rightarrow> app_state \<Rightarrow> outcome" where
  "update_CMD_visibility visibility st =
     (case visibilityCMD st of
        [] \<Rightarrow> Raised IndexError st
      | v # vs \<Rightarrow> hide_CMD visibility
                   (emit (Dirty ''visibilityCMD'') (st\<lparr>visibilityCMD := visibility # vs\<rparr>)))"

section \<open>Callbacks (lines 380 to 413)\<close>

definition set_vel_range :: "real \<times> real \<Rightarrow> app_state \<Rightarrow> outcome" where
  "set_vel_range vel_range st =
     and_then
       (for_range [0..<len_mesh st]
          (\<lambda>j s. if j < length (actor_profile s)
                 then Returned (emit (MapperScalarRange (Profile j) vel_range)
                        (s\<lparr>actor_profile :=
                             (actor_profile s)[j := set_mapper_scalar_range vel_range (actor_profile s ! j)]\<rparr>))
                 else Raised IndexError s)
          st)
       (\<lambda>s. Returned (view_update s))"

definition set_res_range :: "real \<times> real \<Rightarrow> app_state \<Rightarrow> outcome" where
  "set_res_range res_range st =
     (case actor_cmd st of
        [] \<Rightarrow> Raised IndexError st
      | a # as \<Rightarrow> Returned (view_update (emit (MapperScalarRange CMD res_range)
                   (st\<lparr>actor_cmd := set_mapper_scalar_range res_range a # as\<rparr>))))"

definition update_opacity_dem :: "real \<Rightarrow> app_state \<Rightarrow> outcome" where
  "update_opacity_dem mnt_opacity st =
     (case actor_dem st of
        [] \<Rightarrow> Raised IndexError st
      | a # as \<Rightarrow> Returned (view_update (emit (ActorSetOpacity DEM mnt_opacity)
                   (st\<lparr>actor_dem := SetOpacity mnt_opacity a # as\<rparr>))))"

definition update_opacity_cmd :: "real \<Rightarrow> app_state \<Rightarrow> outcome" where
  "update_opacity_cmd cmd_opacity st =
     (case actor_cmd st of
        [] \<Rightarrow> Raised IndexError st
      | a # as \<Rightarrow> Returned (view_update (emit (ActorSetOpacity CMD cmd_opacity)
                   (st\<lparr>actor_cmd := SetOpacity cmd_opacity a # as\<rparr>))))"

text \<open>
  The event of the pipeline tree: a dictionary read at the keys \<^verbatim>\<open>"id"\<close> and
  \<^verbatim>\<open>"visible"\<close>; the value at \<^verbatim>\<open>"visible"\<close> is read as a truth value.
\<close>

record event =
  event_id :: string
  event_visible :: bool

definition visibility_change :: "event \<Rightarrow> app_state \<Rightarrow> outcome" where
  "visibility_change ev st =
     and_then
       (if event_id ev = ''1''
        then for_range [0..<len_mesh st] (\<lambda>i. update_profile_visibility i (event_visible ev)) st
        else if event_id ev = ''2''
        then and_then (update_DEM_visibility (event_visible ev) st)
               (update_CMD_visibility (event_visible ev))
        else Returned st)
       (\<lambda>s. Returned (view_update s))"

section \<open>The states used as examples\<close>

definition default_actor :: actor where
  "default_actor = \<lparr>get_visibility = True, get_opacity = 1, scalar_range = (0, 100)\<rparr>"

definition scene :: app_state where
  \<comment> \<open>The registry of the specification's scenarios: two profile layers, the elevation image
      (at opacity 0.7 as in line 451) and the resistivity map, all visible, nothing emitted yet.\<close>
  "scene =
     \<lparr>visibilityList = [True, True], visibilityDEM = [True], visibilityCMD = [True],
      actor_profile = [default_actor, default_actor\<lparr>scalar_range := (200, 4000)\<rparr>],
      actor_dem = [default_actor\<lparr>get_opacity := 7 / 10\<rparr>],
      actor_cmd = [default_actor],
      len_mesh = 2, trace = []\<rparr>"

section \<open>The control surface\<close>

text \<open>
  The bindings of the widgets to the setters: the check boxes (lines 292, 304 and 324)
  call the three visibility setters, and the sliders reach the opacity and colour-range
  setters through \<^verbatim>\<open>@state.change\<close> (lines 380 to 399).
\<close>

datatype intent =
    ProfileVisibility nat bool
  | DEMVisibility bool
  | CMDVisibility bool
  | DEMOpacity real
  | CMDOpacity real
  | VelRange "real \<times> real"
  | ResRange "real \<times> real"

fun dispatch :: "intent \<Rightarrow> app_state \<Rightarrow> outcome" where
  "dispatch (ProfileVisibility i v) st = update_profile_visibility i v st"
| "dispatch (DEMVisibility v) st = update_DEM_visibility v st"
| "dispatch (CMDVisibility v) st = update_CMD_visibility v st"
| "dispatch (DEMOpacity v) st = update_opacity_dem v st"
| "dispatch (CMDOpacity v) st = update_opacity_cmd v st"
| "dispatch (VelRange r) st = set_vel_range r st"
| "dispatch (ResRange r) st = set_res_range r st"

text \<open>
  \<open>holds st i\<close>: the layer that the intent \<open>i\<close> addresses exists and already has the
  value that \<open>i\<close> carries (for a visibility, both in the UI list and in the actor; for the
  velocity range, in every profile actor the loop of \<^verbatim>\<open>set_vel_range\<close> visits).
\<close>

fun holds :: "app_state \<Rightarrow> intent \<Rightarrow> bool" where
  "holds st (ProfileVisibility i v) =
     (i < length (visibilityList st) \<and> i < length (actor_profile st) \<and>
      visibilityList st ! i = v \<and> get_visibility (actor_profile st ! i) = v)"
| "holds st (DEMVisibility v) =
     (case (visibilityDEM st, actor_dem st) of
        (w # ws, a # as) \<Rightarrow> w = v \<and> get_visibility a = v
      | _ \<Rightarrow> False)"
| "holds st (CMDVisibility v) =
     (case (visibilityCMD st, actor_cmd st) of
        (w # ws, a # as) \<Rightarrow> w = v \<and> get_visibility a = v
      | _ \<Rightarrow> False)"
| "holds st (DEMOpacity v) =
     (case actor_dem st of a # as \<Rightarrow> get_opacity a = v \<and> 0 \<le> v \<and> v \<le> 1 | [] \<Rightarrow> False)"
| "holds st (CMDOpacity v) =
     (case actor_cmd st of a # as \<Rightarrow> get_opacity a = v \<and> 0 \<le> v \<and> v \<le> 1 | [] \<Rightarrow> False)"
| "holds st (VelRange r) =
     (len_mesh st \<le> length (actor_profile st) \<and>
      list_all (\<lambda>a. scalar_range a = r) (take (len_mesh st) (actor_profile st)))"
| "holds st (ResRange r) =
     (case actor_cmd st of a # as \<Rightarrow> scalar_range a = r | [] \<Rightarrow> False)"

section \<open>Start-up and the shape of the scene\<close>

text \<open>
  What the module-level code builds before any callback runs: five visibility flags
  (line 187), one flag each for the elevation image and the resistivity map (lines 188,
  189), one actor per profile mesh (lines 443 to 449), one actor for the elevation image at
  opacity 0.7 (line 451) and one for the resistivity map (line 457). The colour ranges that
  \<^verbatim>\<open>add_mesh\<close> gives the actors are those of the data, which are parameters here.
\<close>

definition startup :: "(real \<times> real) list \<Rightarrow> real \<times> real \<Rightarrow> real \<times> real \<Rightarrow> app_state" where
  "startup vel_ranges dem_range res_range =
     \<lparr>visibilityList = [True, True, True, True, True],
      visibilityDEM = [True], visibilityCMD = [True],
      actor_profile =
        map (\<lambda>r. \<lparr>get_visibility = True, get_opacity = 1, scalar_range = r\<rparr>) vel_ranges,
      actor_dem = [\<lparr>get_visibility = True, get_opacity = 7 / 10, scalar_range = dem_range\<rparr>],
      actor_cmd = [\<lparr>get_visibility = True, get_opacity = 1, scalar_range = res_range\<rparr>],
      len_mesh = length vel_ranges, trace = []\<rparr>"

definition scene_built :: "app_state \<Rightarrow> bool" where
  \<comment> \<open>One actor per profile mesh, a visibility flag for each of them, and the elevation
      image and the resistivity map in place.\<close>
  "scene_built st \<longleftrightarrow>
     length (actor_profile st) = len_mesh st \<and> len_mesh st \<le> length (visibilityList st) \<and>
     visibilityDEM st \<noteq> [] \<and> visibilityCMD st \<noteq> [] \<and> actor_dem st \<noteq> [] \<and> actor_cmd st \<noteq> []"

section \<open>Nearest-neighbour resampling (lines 161 to 177)\<close>

type_synonym point = "real \<times> real"

definition sq_dist :: "point \<Rightarrow> point \<Rightarrow> real" where
  "sq_dist p q = (fst p - fst q)\<^sup>2 + (snd p - snd q)\<^sup>2"

definition euclidean :: "point \<Rightarrow> point \<Rightarrow> real" where
  "euclidean p q = sqrt (sq_dist p q)"

fun nearest :: "point \<Rightarrow> point \<times> real \<Rightarrow> (point \<times> real) list \<Rightarrow> point \<times> real" where
  \<comment> \<open>A scan in source order that keeps the best sample so far and replaces it only by a
      strictly nearer one, so that among equally near samples the lowest index wins (the
      tie-break of 4.1 and of the design notes). Squared distances order the samples as
      the distances do.\<close>
  "nearest t best [] = best"
| "nearest t best (c # cs) =
     nearest t (if sq_dist (fst c) t < sq_dist (fst best) t then c else best) cs"

definition resample :: "point list \<Rightarrow> real list \<Rightarrow> point list \<Rightarrow> error + real list" where
  \<comment> \<open>Modelled from the spec: the interpolator itself. The source builds it with
      \<^verbatim>\<open>NearestNDInterpolator(xy_list, array_cmd)\<close> and applies it to the points of the
      elevation mesh (lines 173, 174); the class comes from a library outside the source.
      The specification (4.1) gives its contract: the value of the nearest source point for
      every target point, and \<^verbatim>\<open>InvalidInputError\<close> when there is no source point or when
      points and values differ in number.\<close>
  "resample sourcePoints sourceValues targetPoints =
     (if sourcePoints = [] \<or> length sourcePoints \<noteq> length sourceValues
      then Inl InvalidInputError
      else Inr (map (\<lambda>t. snd (nearest t (hd (zip sourcePoints sourceValues))
                                   (tl (zip sourcePoints sourceValues))))
                  targetPoints))"

definition nearest_to :: "point list \<Rightarrow> point \<Rightarrow> nat \<Rightarrow> bool" where
  \<comment> \<open>\<open>i\<close> is the index of a source point at minimum Euclidean distance from \<open>t\<close>.\<close>
  "nearest_to sourcePoints t i \<longleftrightarrow>
     i < length sourcePoints \<and>
     (\<forall>j < length sourcePoints. euclidean (sourcePoints ! i) t \<le> euclidean (sourcePoints ! j) t)"

text \<open>
  The call site: the points of a raster mesh are triples, of which the interpolation reads
  the first two coordinates (lines 163 to 170); \<open>point_data\<close> is the scalar array of the
  mesh (\<^verbatim>\<open>mesh_cmd_raw['Resistivity']\<close>).
\<close>

record raster_mesh =
  points :: "(real \<times> real \<times> real) list"
  point_data :: "real list"

definition xy :: "real \<times> real \<times> real \<Rightarrow> point" where
  "xy p = (fst p, fst (snd p))"

definition cmd_interp :: "raster_mesh \<Rightarrow> raster_mesh \<Rightarrow> error + real list" where
  "cmd_interp mesh_cmd_raw mesh_dem =
     resample (map xy (points mesh_cmd_raw)) (point_data mesh_cmd_raw) (map xy (points mesh_dem))"

section \<open>Draping the aerial image (lines 145 to 152)\<close>

type_synonym rgb = "nat \<times> nat \<times> nat"

record image_raster =
  raster_crs :: string
  pixel_rows :: "rgb list list"
  x_min :: real
  x_max :: real
  y_min :: real
  y_max :: real

record elevation_mesh =
  mesh_crs :: string
  vertices :: "(real \<times> real \<times> real) list"
  cells :: "nat list list"

record draped =
  drapedMesh :: elevation_mesh
  textureImage :: "rgb list list"
  textureCoordinates :: "point list"

definition unit_clamp :: "real \<Rightarrow> real" where
  "unit_clamp u = max 0 (min 1 u)"

definition texture_coordinate :: "image_raster \<Rightarrow> point \<Rightarrow> point" where
  \<comment> \<open>Modelled from the spec: the planar position, normalised over the bounding box of the
      raster; a position outside the box gets the coordinate of the nearest edge (4.2:
      clamp, not wrap). A box of zero width or height has no normalisation: HOL's \<open>x / 0 = 0\<close>
      then gives the coordinate 0.\<close>
  "texture_coordinate r p =
     (unit_clamp ((fst p - x_min r) / (x_max r - x_min r)),
      unit_clamp ((snd p - y_min r) / (y_max r - y_min r)))"

definition clamp_elevation :: "real \<Rightarrow> real \<times> real \<times> real \<Rightarrow> real \<times> real \<times> real" where
  \<comment> \<open>Modelled from the spec: the visual ceiling of 4.2.\<close>
  "clamp_elevation maxElevation v =
     (case v of (x, y, e) \<Rightarrow> (x, y, if maxElevation < e then maxElevation else e))"

definition drape :: "image_raster \<Rightarrow> elevation_mesh \<Rightarrow> real \<Rightarrow> error + draped" where
  \<comment> \<open>Modelled from the spec: \<^verbatim>\<open>drape_array_over_dem(array, dem, zmax)\<close>, called at line 148,
      is a function of a library outside the source. The specification (4.2) gives its
      contract: a mismatch of the declared reference systems is an error; otherwise every
      vertex keeps its planar position, its elevation is cut at \<open>maxElevation\<close>, and its
      texture coordinate is computed from its planar position.\<close>
  "drape imageRaster elevationMesh maxElevation =
     (if raster_crs imageRaster \<noteq> mesh_crs elevationMesh
      then Inl GeoreferenceMismatchError
      else Inr \<lparr>drapedMesh =
                  elevationMesh\<lparr>vertices := map (clamp_elevation maxElevation) (vertices elevationMesh)\<rparr>,
                textureImage = pixel_rows imageRaster,
                textureCoordinates =
                  map (\<lambda>v. texture_coordinate imageRaster (xy v)) (vertices elevationMesh)\<rparr>)"

definition zmax :: real where
  \<comment> \<open>The ceiling the source passes (line 150).\<close>
  "zmax = 3000"

text \<open>A raster of two pixels over the bounding box of line 67, and a mesh of two vertices.\<close>

definition ortho :: image_raster where
  "ortho = \<lparr>raster_crs = ''EPSG:2154'', pixel_rows = [[(10, 20, 30), (40, 50, 60)]],
     x_min = 966860, x_max = 967275, y_min = 6446505, y_max = 6446800\<rparr>"

definition terrain :: elevation_mesh where
  "terrain = \<lparr>mesh_crs = ''EPSG:2154'',
     vertices = [(966860, 6446505, 2400), (967275, 6446800, 3200)], cells = [[0, 1]]\<rparr>"

section \<open>Closed forms of the two loops\<close>

definition profiles_toggled :: "nat \<Rightarrow> bool \<Rightarrow> app_state \<Rightarrow> app_state" where
  \<comment> \<open>The state after \<^verbatim>\<open>update_profile_visibility(i, flag)\<close> for \<open>i = 0, ..., n - 1\<close>.\<close>
  "profiles_toggled n flag st =
     st\<lparr>visibilityList := replicate n flag @ drop n (visibilityList st),
        actor_profile :=
          map (SetVisibility flag) (take n (actor_profile st)) @ drop n (actor_profile st),
        trace := trace st @
          concat (map (\<lambda>i. [Dirty ''visibilityList'', ActorSetVisibility (Profile i) flag, ViewUpdate])
                    [0..<n])\<rparr>"

definition ranges_set :: "nat \<Rightarrow> real \<times> real \<Rightarrow> app_state \<Rightarrow> app_state" where
  \<comment> \<open>The state after \<^verbatim>\<open>actor_profile[j].mapper.scalar_range = r\<close> for \<open>j = 0, ..., n - 1\<close>.\<close>
  "ranges_set n r st =
     st\<lparr>actor_profile :=
          map (set_mapper_scalar_range r) (take n (actor_profile st)) @ drop n (actor_profile st),
        trace := trace st @ map (\<lambda>j. MapperScalarRange (Profile j) r) [0..<n]\<rparr>"

section \<open>Group toggles\<close>

lemma for_range_append:
  "for_range (xs @ ys) body st = and_then (for_range xs body st) (for_range ys body)"
proof (induction xs arbitrary: st)
  case Nil
  show ?case by simp
next
  case (Cons x xs)
  show ?case
  proof (cases "body x st")
    case (Raised e s)
    then show ?thesis by simp
  next
    case (Returned s)
    then show ?thesis using Cons.IH by simp
  qed
qed

lemma update_prefix_step:
  assumes "n < length xs"
  shows "(map f (take n xs) @ drop n xs)[n := f ((map f (take n xs) @ drop n xs) ! n)]
           = map f (take (Suc n) xs) @ drop (Suc n) xs"
proof -
  have d: "drop n xs = xs ! n # drop (Suc n) xs"
    using assms by (simp add: Cons_nth_drop_Suc)
  have l: "length (map f (take n xs)) = n"
    using assms by simp
  have "(map f (take n xs) @ drop n xs) ! n = xs ! n"
    using assms by (simp add: nth_append)
  moreover have "(map f (take n xs) @ xs ! n # drop (Suc n) xs)[n := f (xs ! n)]
      = map f (take n xs) @ f (xs ! n) # drop (Suc n) xs"
    using l by (metis list_update_length)
  ultimately show ?thesis
    using assms d by (simp add: take_Suc_conv_app_nth)
qed

lemma replicate_prefix_step:
  assumes "n < length xs"
  shows "(replicate n v @ drop n xs)[n := v] = replicate (Suc n) v @ drop (Suc n) xs"
proof -
  have d: "drop n xs = xs ! n # drop (Suc n) xs"
    using assms by (simp add: Cons_nth_drop_Suc)
  have "(replicate n v @ xs ! n # drop (Suc n) xs)[n := v] = replicate n v @ v # drop (Suc n) xs"
    by (metis length_replicate list_update_length)
  then show ?thesis
    using d by (simp add: replicate_append_same)
qed

lemma update_profile_visibility_step:
  assumes "n < length (visibilityList st)" and "n < length (actor_profile st)"
  shows "update_profile_visibility n flag (profiles_toggled n flag st)
           = Returned (profiles_toggled (Suc n) flag st)"
  using assms
  by (simp add: update_profile_visibility_def hide_profile_def profiles_toggled_def emit_def
      view_update_def update_prefix_step replicate_prefix_step del: replicate_Suc)

lemma toggle_profiles_loop:
  assumes "n \<le> length (visibilityList st)" and "n \<le> length (actor_profile st)"
  shows "for_range [0..<n] (\<lambda>i. update_profile_visibility i flag) st
           = Returned (profiles_toggled n flag st)"
  using assms
proof (induction n)
  case 0
  show ?case by (simp add: profiles_toggled_def)
next
  case (Suc n)
  then show ?case
    by (simp add: for_range_append update_profile_visibility_step)
qed

lemma redraws_emit: "redraws (emit e st) = redraws st + (if e = ViewUpdate then 1 else 0)"
  by (simp add: redraws_def emit_def)

lemma redraws_view_update: "redraws (view_update st) = redraws st + 1"
  by (simp add: view_update_def redraws_emit)

lemma redraws_profiles_toggled: "redraws (profiles_toggled n flag st) = redraws st + n"
  by (induction n) (simp_all add: redraws_def profiles_toggled_def)

lemma set_range_step:
  assumes "n < length (actor_profile st)"
  shows "(\<lambda>j s. if j < length (actor_profile s)
                 then Returned (emit (MapperScalarRange (Profile j) r)
                        (s\<lparr>actor_profile :=
                             (actor_profile s)[j := set_mapper_scalar_range r (actor_profile s ! j)]\<rparr>))
                 else Raised IndexError s) n (ranges_set n r st)
           = Returned (ranges_set (Suc n) r st)"
  using assms
  by (simp add: ranges_set_def emit_def update_prefix_step)

lemma set_ranges_loop:
  assumes "n \<le> length (actor_profile st)"
  shows "for_range [0..<n]
          (\<lambda>j s. if j < length (actor_profile s)
                 then Returned (emit (MapperScalarRange (Profile j) r)
                        (s\<lparr>actor_profile :=
                             (actor_profile s)[j := set_mapper_scalar_range r (actor_profile s ! j)]\<rparr>))
                 else Raised IndexError s) st
           = Returned (ranges_set n r st)"
  using assms
proof (induction n)
  case 0
  show ?case by (simp add: ranges_set_def)
next
  case (Suc n)
  then show ?case
    using set_range_step [of n st r] by (simp add: for_range_append)
qed

lemma redraws_ranges_set: "redraws (ranges_set n r st) = redraws st"
  by (simp add: redraws_def ranges_set_def filter_map comp_def)

lemma visibility_change_profiles:
  assumes "len_mesh st \<le> length (visibilityList st)" and "len_mesh st \<le> length (actor_profile st)"
  shows "visibility_change \<lparr>event_id = ''1'', event_visible = flag\<rparr> st
           = Returned (view_update (profiles_toggled (len_mesh st) flag st))"
  using assms by (simp add: visibility_change_def toggle_profiles_loop)

lemma visibility_change_maps:
  assumes "visibilityDEM st = w # ws" "actor_dem st = a # as"
     "visibilityCMD st = w' # ws'" "actor_cmd st = a' # as'"
  shows "visibility_change \<lparr>event_id = ''2'', event_visible = flag\<rparr> st
           = Returned (st\<lparr>visibilityDEM := flag # ws, actor_dem := SetVisibility flag a # as,
                 visibilityCMD := flag # ws', actor_cmd := SetVisibility flag a' # as',
                 trace := trace st @ [Dirty ''visibilityDEM'', ActorSetVisibility DEM flag, ViewUpdate,
                    Dirty ''visibilityCMD'', ActorSetVisibility CMD flag, ViewUpdate, ViewUpdate]\<rparr>)"
  using assms
  by (simp add: visibility_change_def update_DEM_visibility_def update_CMD_visibility_def
      hide_DEM_def hide_CMD_def emit_def view_update_def)

lemma visibility_change_other:
  assumes "event_id ev \<noteq> ''1''" "event_id ev \<noteq> ''2''"
  shows "visibility_change ev st = Returned (view_update st)"
  using assms by (simp add: visibility_change_def)

lemma set_vel_range_closed:
  assumes "len_mesh st \<le> length (actor_profile st)"
  shows "set_vel_range r st = Returned (view_update (ranges_set (len_mesh st) r st))"
  using assms by (simp add: set_vel_range_def set_ranges_loop)

section \<open>The shape of the scene\<close>

lemma scene_built_scene: "scene_built scene"
  by (simp add: scene_built_def scene_def)

lemma scene_built_startup: "length rs \<le> 5 \<Longrightarrow> scene_built (startup rs d c)"
  by (simp add: scene_built_def startup_def)

text \<open>
  The shape of the scene is an invariant: start-up establishes it for up to five profile
  meshes, and every setter and every \<^verbatim>\<open>visibility_change\<close> event keeps it, whether the
  call returns or raises.
\<close>

lemma scene_built_dispatch:
  assumes "scene_built st"
  shows "scene_built (final (dispatch i st))"
proof (cases i)
  case (VelRange r)
  from assms have "len_mesh st \<le> length (actor_profile st)"
    by (simp add: scene_built_def)
  then show ?thesis using VelRange assms
    by (simp add: set_vel_range_closed view_update_def emit_def ranges_set_def scene_built_def)
next
  case (ProfileVisibility k v)
  then show ?thesis using assms
    by (auto simp add: update_profile_visibility_def hide_profile_def emit_def view_update_def
        scene_built_def)
next
  case (DEMVisibility v)
  then show ?thesis using assms
    by (auto simp add: update_DEM_visibility_def hide_DEM_def emit_def view_update_def
        scene_built_def split: list.splits)
next
  case (CMDVisibility v)
  then show ?thesis using assms
    by (auto simp add: update_CMD_visibility_def hide_CMD_def emit_def view_update_def
        scene_built_def split: list.splits)
next
  case (DEMOpacity v)
  then show ?thesis using assms
    by (auto simp add: update_opacity_dem_def emit_def view_update_def
        scene_built_def split: list.splits)
next
  case (CMDOpacity v)
  then show ?thesis using assms
    by (auto simp add: update_opacity_cmd_def emit_def view_update_def
        scene_built_def split: list.splits)
next
  case (ResRange r)
  then show ?thesis using assms
    by (auto simp add: set_res_range_def emit_def view_update_def
        scene_built_def split: list.splits)
qed

lemma scene_built_visibility_change:
  assumes "scene_built st"
  shows "scene_built (final (visibility_change ev st))"
proof -
  have e: "ev = \<lparr>event_id = event_id ev, event_visible = event_visible ev\<rparr>" by simp
  consider "event_id ev = ''1''" | "event_id ev = ''2''" | "event_id ev \<noteq> ''1''" "event_id ev \<noteq> ''2''"
    by blast
  then show ?thesis
  proof cases
    case 1
    from assms have n: "len_mesh st \<le> length (visibilityList st)" "len_mesh st \<le> length (actor_profile st)"
      by (simp_all add: scene_built_def)
    have "visibility_change ev st = Returned (view_update (profiles_toggled (len_mesh st) (event_visible ev) st))"
      using visibility_change_profiles [OF n, of "event_visible ev"] 1 e by metis
    then show ?thesis using assms
      by (simp add: view_update_def emit_def profiles_toggled_def scene_built_def)
  next
    case 2
    from assms obtain w ws a as w' ws' a' as' where
      l: "visibilityDEM st = w # ws" "actor_dem st = a # as"
         "visibilityCMD st = w' # ws'" "actor_cmd st = a' # as'"
      by (auto simp add: scene_built_def neq_Nil_conv)
    have "visibility_change ev st =
        Returned (st\<lparr>visibilityDEM := event_visible ev # ws,
                 actor_dem := SetVisibility (event_visible ev) a # as,
                 visibilityCMD := event_visible ev # ws',
                 actor_cmd := SetVisibility (event_visible ev) a' # as',
                 trace := trace st @ [Dirty ''visibilityDEM'', ActorSetVisibility DEM (event_visible ev),
                    ViewUpdate, Dirty ''visibilityCMD'', ActorSetVisibility CMD (event_visible ev),
                    ViewUpdate, ViewUpdate]\<rparr>)"
      using visibility_change_maps [OF l, of "event_visible ev"] 2 e by metis
    then show ?thesis using assms
      by (simp add: scene_built_def)
  next
    case 3
    then show ?thesis using assms
      by (simp add: visibility_change_other view_update_def emit_def scene_built_def)
  qed
qed

section \<open>Claims about the group toggle\<close>

text \<open>
  Claim C1, as amended. A \<^verbatim>\<open>visibility_change\<close> event with the group id \<^verbatim>\<open>"1"\<close> applies the
  requested visibility to every profile layer in index order, to the UI list and to the
  actor. It does not batch the redraw: each layer's update is followed by its own redraw
  signal (\<^verbatim>\<open>hide_profile\<close> calls \<^verbatim>\<open>ctrl.view_update()\<close>), and one more follows the whole
  group, so a group of \<open>n\<close> layers emits \<open>n + 1\<close> redraw signals. The event with id \<^verbatim>\<open>"2"\<close>
  does the same for its two layers, the elevation image and then the resistivity map, and
  emits three redraw signals.
\<close>
theorem group_toggle_redraws_after_each_layer:
  assumes "scene_built st"
  shows "(\<exists>st'. visibility_change \<lparr>event_id = ''1'', event_visible = flag\<rparr> st = Returned st' \<and>
           visibilityList st' = replicate (len_mesh st) flag @ drop (len_mesh st) (visibilityList st) \<and>
           map get_visibility (actor_profile st') = replicate (len_mesh st) flag \<and>
           trace st' = trace st @
             concat (map (\<lambda>i. [Dirty ''visibilityList'', ActorSetVisibility (Profile i) flag, ViewUpdate])
                       [0..<len_mesh st]) @ [ViewUpdate] \<and>
           redraws st' = redraws st + len_mesh st + 1) \<and>
         (\<exists>st'. visibility_change \<lparr>event_id = ''2'', event_visible = flag\<rparr> st = Returned st' \<and>
           trace st' = trace st @
             [Dirty ''visibilityDEM'', ActorSetVisibility DEM flag, ViewUpdate,
              Dirty ''visibilityCMD'', ActorSetVisibility CMD flag, ViewUpdate, ViewUpdate] \<and>
           redraws st' = redraws st + 3)"
proof (rule conjI)
  let ?n = "len_mesh st"
  let ?st' = "view_update (profiles_toggled ?n flag st)"
  from assms have n: "?n \<le> length (visibilityList st)" "length (actor_profile st) = ?n"
    by (simp_all add: scene_built_def)
  then have run: "visibility_change \<lparr>event_id = ''1'', event_visible = flag\<rparr> st = Returned ?st'"
    by (simp add: visibility_change_profiles)
  have vl: "visibilityList ?st' = replicate ?n flag @ drop ?n (visibilityList st)"
    by (simp add: view_update_def emit_def profiles_toggled_def)
  have "actor_profile ?st' = map (SetVisibility flag) (actor_profile st)"
    using n by (simp add: view_update_def emit_def profiles_toggled_def)
  then have ap: "map get_visibility (actor_profile ?st') = replicate ?n flag"
    using n by (simp add: SetVisibility_def comp_def map_replicate_const)
  have tr: "trace ?st' = trace st @
      concat (map (\<lambda>i. [Dirty ''visibilityList'', ActorSetVisibility (Profile i) flag, ViewUpdate])
                [0..<?n]) @ [ViewUpdate]"
    by (simp add: view_update_def emit_def profiles_toggled_def)
  have rd: "redraws ?st' = redraws st + ?n + 1"
    by (simp add: redraws_view_update redraws_profiles_toggled)
  from run vl ap tr rd
  show "\<exists>st'. visibility_change \<lparr>event_id = ''1'', event_visible = flag\<rparr> st = Returned st' \<and>
           visibilityList st' = replicate (len_mesh st) flag @ drop (len_mesh st) (visibilityList st) \<and>
           map get_visibility (actor_profile st') = replicate (len_mesh st) flag \<and>
           trace st' = trace st @
             concat (map (\<lambda>i. [Dirty ''visibilityList'', ActorSetVisibility (Profile i) flag, ViewUpdate])
                       [0..<len_mesh st]) @ [ViewUpdate] \<and>
           redraws st' = redraws st + len_mesh st + 1"
    by blast
next
  from assms obtain w ws a as w' ws' a' as' where
    l: "visibilityDEM st = w # ws" "actor_dem st = a # as"
       "visibilityCMD st = w' # ws'" "actor_cmd st = a' # as'"
    by (auto simp add: scene_built_def neq_Nil_conv)
  show "\<exists>st'. visibility_change \<lparr>event_id = ''2'', event_visible = flag\<rparr> st = Returned st' \<and>
           trace st' = trace st @
             [Dirty ''visibilityDEM'', ActorSetVisibility DEM flag, ViewUpdate,
              Dirty ''visibilityCMD'', ActorSetVisibility CMD flag, ViewUpdate, ViewUpdate] \<and>
           redraws st' = redraws st + 3"
    by (simp add: visibility_change_maps [OF l] redraws_def)
qed

theorem group_toggle_redraws_after_each_layer_witness:
  "scene_built scene \<and>
   redraws (final (visibility_change \<lparr>event_id = ''1'', event_visible = False\<rparr> scene)) = 3 \<and>
   map get_visibility (actor_profile (final (visibility_change \<lparr>event_id = ''1'', event_visible = False\<rparr> scene)))
     = [False, False]"
proof -
  have b: "scene_built scene" by (rule scene_built_scene)
  have n: "len_mesh scene = 2" "redraws scene = 0" by (simp_all add: scene_def redraws_def)
  from group_toggle_redraws_after_each_layer [OF b, of False] n b
  show ?thesis by (auto simp add: numeral_2_eq_2)
qed

theorem one_redraw_per_group_counterexample:
  "redraws (final (visibility_change \<lparr>event_id = ''1'', event_visible = False\<rparr> scene))
     = redraws scene + 3 \<and>
   redraws (final (visibility_change \<lparr>event_id = ''1'', event_visible = False\<rparr> scene))
     \<noteq> redraws scene + 1"
proof -
  have "len_mesh scene = 2" "length (visibilityList scene) = 2" "length (actor_profile scene) = 2"
    by (simp_all add: scene_def)
  then have "visibility_change \<lparr>event_id = ''1'', event_visible = False\<rparr> scene
      = Returned (view_update (profiles_toggled 2 False scene))"
    using visibility_change_profiles [of scene False] by simp
  then show ?thesis
    by (simp add: redraws_view_update redraws_profiles_toggled)
qed

text \<open>
  Claim C8. A group toggle mutates the layers of its group and no other: the event with id
  \<^verbatim>\<open>"1"\<close> sets the visibility of every profile actor and leaves its opacity and colour
  range, and the whole state of the elevation image and of the resistivity map (actor and
  UI flag), as they were; the event with id \<^verbatim>\<open>"2"\<close> leaves every profile actor and the
  profile flags as they were.
\<close>
theorem group_toggle_frame:
  assumes "scene_built st"
  shows "(\<exists>st'. visibility_change \<lparr>event_id = ''1'', event_visible = flag\<rparr> st = Returned st' \<and>
            actor_profile st' = map (\<lambda>a. a\<lparr>get_visibility := flag\<rparr>) (actor_profile st) \<and>
            actor_dem st' = actor_dem st \<and> actor_cmd st' = actor_cmd st \<and>
            visibilityDEM st' = visibilityDEM st \<and> visibilityCMD st' = visibilityCMD st) \<and>
         (\<exists>st'. visibility_change \<lparr>event_id = ''2'', event_visible = flag\<rparr> st = Returned st' \<and>
            actor_profile st' = actor_profile st \<and> visibilityList st' = visibilityList st)"
proof
  from assms have n: "len_mesh st \<le> length (visibilityList st)" "length (actor_profile st) = len_mesh st"
    by (simp_all add: scene_built_def)
  have sv: "SetVisibility flag = (\<lambda>a. a\<lparr>get_visibility := flag\<rparr>)"
    by (rule ext) (simp add: SetVisibility_def)
  show "\<exists>st'. visibility_change \<lparr>event_id = ''1'', event_visible = flag\<rparr> st = Returned st' \<and>
            actor_profile st' = map (\<lambda>a. a\<lparr>get_visibility := flag\<rparr>) (actor_profile st) \<and>
            actor_dem st' = actor_dem st \<and> actor_cmd st' = actor_cmd st \<and>
            visibilityDEM st' = visibilityDEM st \<and> visibilityCMD st' = visibilityCMD st"
    using n by (simp add: visibility_change_profiles view_update_def emit_def profiles_toggled_def sv)
next
  from assms obtain w ws a as w' ws' a' as' where
    l: "visibilityDEM st = w # ws" "actor_dem st = a # as"
       "visibilityCMD st = w' # ws'" "actor_cmd st = a' # as'"
    by (auto simp add: scene_built_def neq_Nil_conv)
  show "\<exists>st'. visibility_change \<lparr>event_id = ''2'', event_visible = flag\<rparr> st = Returned st' \<and>
            actor_profile st' = actor_profile st \<and> visibilityList st' = visibilityList st"
    by (simp add: visibility_change_maps [OF l])
qed

theorem group_toggle_frame_witness:
  "scene_built scene \<and>
   map get_visibility (actor_profile (final (visibility_change \<lparr>event_id = ''1'', event_visible = False\<rparr> scene)))
     = [False, False] \<and>
   actor_dem (final (visibility_change \<lparr>event_id = ''1'', event_visible = False\<rparr> scene)) = actor_dem scene \<and>
   actor_cmd (final (visibility_change \<lparr>event_id = ''1'', event_visible = False\<rparr> scene)) = actor_cmd scene \<and>
   visibilityDEM (final (visibility_change \<lparr>event_id = ''1'', event_visible = False\<rparr> scene)) = [True] \<and>
   visibilityCMD (final (visibility_change \<lparr>event_id = ''1'', event_visible = False\<rparr> scene)) = [True]"
proof -
  have b: "scene_built scene" by (rule scene_built_scene)
  have s: "map get_visibility (actor_profile scene) = [True, True]"
     "visibilityDEM scene = [True]" "visibilityCMD scene = [True]"
    by (simp_all add: scene_def default_actor_def)
  have l: "length (actor_profile scene) = 2" by (simp add: scene_def)
  from group_toggle_frame [OF b, of False] obtain st' where
    "visibility_change \<lparr>event_id = ''1'', event_visible = False\<rparr> scene = Returned st'"
    "actor_profile st' = map (\<lambda>a. a\<lparr>get_visibility := False\<rparr>) (actor_profile scene)"
    "actor_dem st' = actor_dem scene" "actor_cmd st' = actor_cmd scene"
    "visibilityDEM st' = visibilityDEM scene" "visibilityCMD st' = visibilityCMD scene"
    by blast
  then show ?thesis using b s l
    by (simp add: comp_def scene_def)
qed

text \<open>
  Claim C9. One \<^verbatim>\<open>visibility_change\<close> event with id \<^verbatim>\<open>"2"\<close> gives the elevation-image
  layer and the resistivity-map layer the same requested visibility, in the actor and in
  the UI flag of each.
\<close>
theorem images_and_maps_toggle_both:
  assumes "scene_built st"
  shows "\<exists>st'. visibility_change \<lparr>event_id = ''2'', event_visible = flag\<rparr> st = Returned st' \<and>
           get_visibility (hd (actor_dem st')) = flag \<and> get_visibility (hd (actor_cmd st')) = flag \<and>
           hd (visibilityDEM st') = flag \<and> hd (visibilityCMD st') = flag"
proof -
  from assms obtain w ws a as w' ws' a' as' where
    l: "visibilityDEM st = w # ws" "actor_dem st = a # as"
       "visibilityCMD st = w' # ws'" "actor_cmd st = a' # as'"
    by (auto simp add: scene_built_def neq_Nil_conv)
  show ?thesis
    by (simp add: visibility_change_maps [OF l] SetVisibility_def)
qed

theorem images_and_maps_toggle_both_witness:
  "scene_built scene \<and>
   map get_visibility (actor_dem (final (visibility_change \<lparr>event_id = ''2'', event_visible = False\<rparr> scene)))
     = [False] \<and>
   map get_visibility (actor_cmd (final (visibility_change \<lparr>event_id = ''2'', event_visible = False\<rparr> scene)))
     = [False] \<and>
   visibilityDEM (final (visibility_change \<lparr>event_id = ''2'', event_visible = False\<rparr> scene)) = [False] \<and>
   visibilityCMD (final (visibility_change \<lparr>event_id = ''2'', event_visible = False\<rparr> scene)) = [False]"
proof -
  have b: "scene_built scene" by (rule scene_built_scene)
  have run: "visibility_change \<lparr>event_id = ''2'', event_visible = False\<rparr> scene
      = Returned (final (visibility_change \<lparr>event_id = ''2'', event_visible = False\<rparr> scene))"
    using images_and_maps_toggle_both [OF b, of False] by auto
  have "length (actor_dem (final (visibility_change \<lparr>event_id = ''2'', event_visible = False\<rparr> scene))) = 1"
       "length (actor_cmd (final (visibility_change \<lparr>event_id = ''2'', event_visible = False\<rparr> scene))) = 1"
       "length (visibilityDEM (final (visibility_change \<lparr>event_id = ''2'', event_visible = False\<rparr> scene))) = 1"
       "length (visibilityCMD (final (visibility_change \<lparr>event_id = ''2'', event_visible = False\<rparr> scene))) = 1"
    by (simp_all add: visibility_change_def update_DEM_visibility_def update_CMD_visibility_def
      hide_DEM_def hide_CMD_def emit_def view_update_def scene_def)
  then show ?thesis
    using images_and_maps_toggle_both [OF b, of False] b run
    by (auto simp add: length_Suc_conv)
qed

section \<open>Claims about the colour ranges\<close>

text \<open>
  Claim C10. \<^verbatim>\<open>set_vel_range\<close> returns and leaves every profile actor with the one
  range it was given, so that no two profile layers hold different velocity ranges; the
  shape of the scene is kept.
\<close>
theorem set_vel_range_uniform:
  assumes "scene_built st"
  shows "\<exists>st'. set_vel_range r st = Returned st' \<and>
           length (actor_profile st') = length (actor_profile st) \<and>
           (\<forall>a \<in> set (actor_profile st'). scalar_range a = r) \<and>
           scene_built st'"
proof -
  from assms have n: "length (actor_profile st) = len_mesh st"
    by (simp add: scene_built_def)
  then have "set_vel_range r st = Returned (view_update (ranges_set (len_mesh st) r st))"
    by (simp add: set_vel_range_closed)
  moreover have "actor_profile (view_update (ranges_set (len_mesh st) r st))
      = map (set_mapper_scalar_range r) (actor_profile st)"
    using n by (simp add: view_update_def emit_def ranges_set_def)
  moreover have "scene_built (view_update (ranges_set (len_mesh st) r st))"
    using assms by (simp add: scene_built_def view_update_def emit_def ranges_set_def)
  ultimately show ?thesis
    by (auto simp add: set_mapper_scalar_range_def)
qed

theorem set_vel_range_uniform_witness:
  "scene_built scene \<and>
   map scalar_range (actor_profile scene) = [(0, 100), (200, 4000)] \<and>
   map scalar_range (actor_profile (final (set_vel_range (500, 3000) scene)))
     = [(500, 3000), (500, 3000)]"
proof -
  have b: "scene_built scene" by (rule scene_built_scene)
  have s: "map scalar_range (actor_profile scene) = [(0, 100), (200, 4000)]"
    by (simp add: scene_def default_actor_def)
  have l: "length (actor_profile scene) = 2" by (simp add: scene_def)
  from set_vel_range_uniform [OF b, of "(500, 3000)"] obtain st' where
    r: "set_vel_range (500, 3000) scene = Returned st'"
       "length (actor_profile st') = length (actor_profile scene)"
       "\<forall>a \<in> set (actor_profile st'). scalar_range a = (500, 3000)"
    by blast
  from r(2) l obtain a1 a2 where "actor_profile st' = [a1, a2]"
    by (auto simp add: length_Suc_conv numeral_2_eq_2)
  with r b s show ?thesis by simp
qed

section \<open>Claims about the setters\<close>

lemma ranges_set_held:
  assumes "list_all (\<lambda>a. scalar_range a = r) (take n (actor_profile st))"
  shows "(ranges_set n r st)\<lparr>trace := trace st\<rparr> = st"
proof -
  have "map (set_mapper_scalar_range r) (take n (actor_profile st)) = take n (actor_profile st)"
    using assms by (intro map_idI) (auto simp add: list_all_iff set_mapper_scalar_range_def)
  then show ?thesis
    by (simp add: ranges_set_def)
qed

text \<open>
  Claim C2, as amended. A setter invoked with the value its layer already holds returns and
  leaves the whole state but the trace as it was, and it still emits exactly one redraw
  signal: no setter compares the new value with the old one.
\<close>

theorem setter_with_held_value_redraws_once:
  assumes "holds st i"
  shows "\<exists>st'. dispatch i st = Returned st' \<and> st'\<lparr>trace := trace st\<rparr> = st \<and>
           redraws st' = redraws st + 1"
proof (cases i)
  case (ProfileVisibility k v)
  with assms have h: "k < length (visibilityList st)" "k < length (actor_profile st)"
      "visibilityList st ! k = v" "get_visibility (actor_profile st ! k) = v"
    by simp_all
  have "(visibilityList st)[k := v] = visibilityList st"
    using h(3) list_update_id [of "visibilityList st" k] by simp
  moreover have "(actor_profile st)[k := SetVisibility v (actor_profile st ! k)] = actor_profile st"
    using h by (simp add: SetVisibility_def list_update_same_conv)
  ultimately show ?thesis
    using h ProfileVisibility
    by (simp add: update_profile_visibility_def hide_profile_def emit_def view_update_def redraws_def)
next
  case (DEMVisibility v)
  with assms obtain ws a as where "visibilityDEM st = v # ws" "actor_dem st = a # as" "get_visibility a = v"
    by (auto split: list.splits)
  then show ?thesis
    using DEMVisibility
    by (simp add: update_DEM_visibility_def hide_DEM_def emit_def view_update_def redraws_def
        SetVisibility_def)
next
  case (CMDVisibility v)
  with assms obtain ws a as where "visibilityCMD st = v # ws" "actor_cmd st = a # as" "get_visibility a = v"
    by (auto split: list.splits)
  then show ?thesis
    using CMDVisibility
    by (simp add: update_CMD_visibility_def hide_CMD_def emit_def view_update_def redraws_def
        SetVisibility_def)
next
  case (DEMOpacity v)
  with assms obtain a as where "actor_dem st = a # as" "get_opacity a = v" "0 \<le> v" "v \<le> 1"
    by (auto split: list.splits)
  then show ?thesis
    using DEMOpacity
    by (simp add: update_opacity_dem_def emit_def view_update_def redraws_def SetOpacity_def)
next
  case (CMDOpacity v)
  with assms obtain a as where "actor_cmd st = a # as" "get_opacity a = v" "0 \<le> v" "v \<le> 1"
    by (auto split: list.splits)
  then show ?thesis
    using CMDOpacity
    by (simp add: update_opacity_cmd_def emit_def view_update_def redraws_def SetOpacity_def)
next
  case (VelRange r)
  with assms have h: "len_mesh st \<le> length (actor_profile st)"
      "list_all (\<lambda>a. scalar_range a = r) (take (len_mesh st) (actor_profile st))"
    by simp_all
  have "(view_update (ranges_set (len_mesh st) r st))\<lparr>trace := trace st\<rparr>
      = (ranges_set (len_mesh st) r st)\<lparr>trace := trace st\<rparr>"
    by (simp add: view_update_def emit_def)
  then have "(view_update (ranges_set (len_mesh st) r st))\<lparr>trace := trace st\<rparr> = st"
    using ranges_set_held [OF h(2)] by simp
  then show ?thesis
    using VelRange h(1)
    by (simp add: set_vel_range_closed redraws_view_update redraws_ranges_set)
next
  case (ResRange r)
  with assms obtain a as where "actor_cmd st = a # as" "scalar_range a = r"
    by (auto split: list.splits)
  then show ?thesis
    using ResRange
    by (simp add: set_res_range_def emit_def view_update_def redraws_def set_mapper_scalar_range_def)
qed

text \<open>
  The elevation image of \<open>scene\<close> is visible; setting it visible again changes nothing but
  the trace, which gains one redraw signal.
\<close>

theorem setter_with_held_value_redraws_once_witness:
  "holds scene (DEMVisibility True) \<and>
   dispatch (DEMVisibility True) scene =
     Returned (scene\<lparr>trace := [Dirty ''visibilityDEM'', ActorSetVisibility DEM True, ViewUpdate]\<rparr>) \<and>
   redraws (final (dispatch (DEMVisibility True) scene)) = 1"
proof -
  have h: "holds scene (DEMVisibility True)"
    by (simp add: scene_def default_actor_def)
  have r: "redraws scene = 0"
    by (simp add: redraws_def scene_def)
  have d: "dispatch (DEMVisibility True) scene =
      Returned (scene\<lparr>trace := [Dirty ''visibilityDEM'', ActorSetVisibility DEM True, ViewUpdate]\<rparr>)"
    by (simp add: update_DEM_visibility_def hide_DEM_def emit_def view_update_def scene_def
        SetVisibility_def default_actor_def)
  from setter_with_held_value_redraws_once [OF h] r h d show ?thesis
    by auto
qed

text \<open>
  Against claim C2 as stated: the flag and the actor of the elevation image already hold
  \<open>True\<close>, and \<^verbatim>\<open>update_DEM_visibility(True)\<close> emits a redraw signal all the same.
\<close>

theorem no_op_suppression_counterexample:
  "visibilityDEM scene = [True] \<and> map get_visibility (actor_dem scene) = [True] \<and>
   redraws (final (update_DEM_visibility True scene)) = redraws scene + 1 \<and>
   redraws (final (update_DEM_visibility True scene)) \<noteq> redraws scene"
  by (simp add: update_DEM_visibility_def hide_DEM_def emit_def view_update_def scene_def
      redraws_def default_actor_def)

text \<open>
  Claim C5, as amended. \<^verbatim>\<open>set_res_range\<close> does not validate the range: given a range whose
  minimum exceeds its maximum it does not fail, it stores the range as given in the actor of
  the resistivity map and emits one redraw signal. Its only failure is the \<^verbatim>\<open>IndexError\<close>
  of a missing actor, which leaves the state as it was.
\<close>

theorem set_res_range_accepts_inverted_range:
  assumes "hi < lo"
  shows "(if actor_cmd st = []
          then set_res_range (lo, hi) st = Raised IndexError st
          else raised (set_res_range (lo, hi) st) = None \<and>
               scalar_range (hd (actor_cmd (final (set_res_range (lo, hi) st)))) = (lo, hi) \<and>
               redraws (final (set_res_range (lo, hi) st)) = redraws st + 1)"
  by (cases "actor_cmd st")
    (simp_all add: set_res_range_def emit_def view_update_def redraws_def set_mapper_scalar_range_def)

theorem set_res_range_accepts_inverted_range_witness:
  "(5::real) < 10 \<and> actor_cmd scene \<noteq> [] \<and> raised (set_res_range (10, 5) scene) = None \<and>
   scalar_range (hd (actor_cmd (final (set_res_range (10, 5) scene)))) = (10, 5) \<and>
   redraws (final (set_res_range (10, 5) scene)) = 1"
proof -
  have h: "(5::real) < 10" by simp
  have c: "actor_cmd scene \<noteq> []" by (simp add: scene_def)
  have r: "redraws scene = 0" by (simp add: redraws_def scene_def)
  from set_res_range_accepts_inverted_range [OF h, of scene] h c r show ?thesis
    by simp
qed

text \<open>
  Against claim C5 as stated: the range \<open>(10, 5)\<close> is not refused, and it replaces the range
  \<open>(0, 100)\<close> that the resistivity map had.
\<close>

theorem invalid_range_rejected_counterexample:
  "raised (set_res_range (10, 5) scene) \<noteq> Some InvalidRangeError \<and>
   scalar_range (hd (actor_cmd scene)) = (0, 100) \<and>
   scalar_range (hd (actor_cmd (final (set_res_range (10, 5) scene)))) = (10, 5)"
  by (simp add: set_res_range_def emit_def view_update_def scene_def default_actor_def
      set_mapper_scalar_range_def)

text \<open>
  Claim C7. The two opacity setters of the source, for the elevation image and for the
  resistivity map, never fail because of the opacity value: they fail exactly when the
  actor is missing, with \<^verbatim>\<open>IndexError\<close> and an unchanged state. Otherwise the opacity the
  layer holds afterwards is the value brought into the interval from 0 to 1, that is 0 for
  a negative value, 1 for a value above 1 and the value itself in between.
\<close>

theorem opacity_clamped_never_rejected:
  "(if actor_dem st = []
    then update_opacity_dem v st = Raised IndexError st
    else raised (update_opacity_dem v st) = None \<and>
         get_opacity (hd (actor_dem (final (update_opacity_dem v st)))) = max 0 (min 1 v)) \<and>
   (if actor_cmd st = []
    then update_opacity_cmd v st = Raised IndexError st
    else raised (update_opacity_cmd v st) = None \<and>
         get_opacity (hd (actor_cmd (final (update_opacity_cmd v st)))) = max 0 (min 1 v))"
proof
  show "if actor_dem st = []
    then update_opacity_dem v st = Raised IndexError st
    else raised (update_opacity_dem v st) = None \<and>
         get_opacity (hd (actor_dem (final (update_opacity_dem v st)))) = max 0 (min 1 v)"
    by (cases "actor_dem st")
      (simp_all add: update_opacity_dem_def emit_def view_update_def SetOpacity_def)
next
  show "if actor_cmd st = []
    then update_opacity_cmd v st = Raised IndexError st
    else raised (update_opacity_cmd v st) = None \<and>
         get_opacity (hd (actor_cmd (final (update_opacity_cmd v st)))) = max 0 (min 1 v)"
    by (cases "actor_cmd st")
      (simp_all add: update_opacity_cmd_def emit_def view_update_def SetOpacity_def)
qed

theorem opacity_clamped_never_rejected_witness:
  "get_opacity (hd (actor_dem (final (update_opacity_dem 2 scene)))) = 1 \<and>
   get_opacity (hd (actor_cmd (final (update_opacity_cmd (- 3) scene)))) = 0 \<and>
   get_opacity (hd (actor_cmd (final (update_opacity_cmd (1 / 2) scene)))) = 1 / 2 \<and>
   update_opacity_dem 2 (scene\<lparr>actor_dem := []\<rparr>) = Raised IndexError (scene\<lparr>actor_dem := []\<rparr>)"
proof -
  have c: "actor_dem scene \<noteq> []" "actor_cmd scene \<noteq> []" "actor_dem (scene\<lparr>actor_dem := []\<rparr>) = []"
    by (simp_all add: scene_def)
  from opacity_clamped_never_rejected [of scene 2] opacity_clamped_never_rejected [of scene "- 3"]
    opacity_clamped_never_rejected [of scene "1 / 2"]
    opacity_clamped_never_rejected [of "scene\<lparr>actor_dem := []\<rparr>" 2] c
  show ?thesis by simp
qed

section \<open>Claims about resampling\<close>

lemma nearest_mem: "nearest t b cs \<in> set (b # cs)"
  by (induction cs arbitrary: b) (auto split: if_splits)

lemma nearest_le_best: "sq_dist (fst (nearest t b cs)) t \<le> sq_dist (fst b) t"
proof (induction cs arbitrary: b)
  case Nil
  show ?case by simp
next
  case (Cons c cs)
  show ?case
    using Cons.IH [of c] Cons.IH [of b] by (simp split: if_splits)
qed

lemma nearest_min:
  assumes "c \<in> set (b # cs)"
  shows "sq_dist (fst (nearest t b cs)) t \<le> sq_dist (fst c) t"
  using assms
proof (induction cs arbitrary: b)
  case Nil
  then show ?case by simp
next
  case (Cons d ds)
  let ?b' = "if sq_dist (fst d) t < sq_dist (fst b) t then d else b"
  have step: "nearest t b (d # ds) = nearest t ?b' ds" by simp
  consider "c = b" | "c = d" | "c \<in> set ds" using Cons.prems by auto
  then show ?case
  proof cases
    case 1
    have "sq_dist (fst (nearest t ?b' ds)) t \<le> sq_dist (fst ?b') t" by (rule nearest_le_best)
    also have "\<dots> \<le> sq_dist (fst b) t" by simp
    finally show ?thesis using 1 step by simp
  next
    case 2
    have "sq_dist (fst (nearest t ?b' ds)) t \<le> sq_dist (fst ?b') t" by (rule nearest_le_best)
    also have "\<dots> \<le> sq_dist (fst d) t" by simp
    finally show ?thesis using 2 step by simp
  next
    case 3
    then have "c \<in> set (?b' # ds)" by simp
    from Cons.IH [OF this] show ?thesis using step by simp
  qed
qed

lemma sq_dist_nonneg: "0 \<le> sq_dist p q"
  by (simp add: sq_dist_def)

lemma euclidean_le_iff: "euclidean p t \<le> euclidean q t \<longleftrightarrow> sq_dist p t \<le> sq_dist q t"
  by (simp add: euclidean_def)

lemma nearest_in_zip:
  assumes "sps \<noteq> []" and "length sps = length svs"
  shows "\<exists>i. nearest_to sps t i \<and>
           snd (nearest t (hd (zip sps svs)) (tl (zip sps svs))) = svs ! i"
proof -
  let ?z = "zip sps svs"
  let ?n = "nearest t (hd ?z) (tl ?z)"
  from assms have ne: "?z \<noteq> []" by (cases sps; cases svs) simp_all
  then have z: "hd ?z # tl ?z = ?z" by simp
  have "?n \<in> set ?z" using nearest_mem [of t "hd ?z" "tl ?z"] z by simp
  then obtain i where i: "i < length sps" "?n = (sps ! i, svs ! i)"
    using assms(2) by (auto simp add: set_zip)
  have "euclidean (sps ! i) t \<le> euclidean (sps ! j) t" if "j < length sps" for j
  proof -
    from that assms(2) have "(sps ! j, svs ! j) \<in> set (hd ?z # tl ?z)"
      unfolding z by (auto simp add: set_zip)
    from nearest_min [OF this, of t] i(2) show ?thesis
      by (simp add: euclidean_le_iff)
  qed
  with i show ?thesis by (auto simp add: nearest_to_def)
qed

text \<open>
  At the call site the points and the values come from the same raster mesh, which has one
  value per point; a raster with at least one point then gives every point of the elevation
  mesh a resistivity.
\<close>

lemma cmd_interp_returns:
  assumes "points mesh_cmd_raw \<noteq> []"
    and "length (points mesh_cmd_raw) = length (point_data mesh_cmd_raw)"
  shows "\<exists>out. cmd_interp mesh_cmd_raw mesh_dem = Inr out \<and> length out = length (points mesh_dem)"
  using assms by (simp add: cmd_interp_def resample_def)

text \<open>
  Claim C3. \<open>resample\<close> fails with \<^verbatim>\<open>InvalidInputError\<close> exactly when there is no source
  point or when the source points and the source values differ in number; on every other
  input it returns a sequence and raises nothing.
\<close>
theorem resample_raises_exactly_on_bad_input:
  "(resample sps svs tps = Inl InvalidInputError) = (sps = [] \<or> length sps \<noteq> length svs) \<and>
   (\<exists>out. resample sps svs tps = Inr out) = (sps \<noteq> [] \<and> length sps = length svs) \<and>
   (\<exists>e. resample sps svs tps = Inl e) = (sps = [] \<or> length sps \<noteq> length svs)"
  by (auto simp add: resample_def)

theorem resample_raises_exactly_on_bad_input_witness:
  "resample [] [] [(1, 0)] = Inl InvalidInputError \<and>
   resample [(0, 0), (10, 0)] [5] [(1, 0)] = Inl InvalidInputError \<and>
   (\<exists>out. resample [(0, 0), (10, 0)] [5, 50] [(1, 0)] = Inr out)"
  using resample_raises_exactly_on_bad_input [of "[]" "[]" "[(1, 0)]"]
    resample_raises_exactly_on_bad_input [of "[(0, 0), (10, 0)]" "[5]" "[(1, 0)]"]
    resample_raises_exactly_on_bad_input [of "[(0, 0), (10, 0)]" "[5, 50]" "[(1, 0)]"]
  by simp

text \<open>
  Claim C4. For a non-empty list of source points with as many values, and any target
  points, \<open>resample\<close> returns one value per target point; every value returned is one of
  the source values; and the value at each position is the value of a source point at
  minimum Euclidean distance from the target point at that position.
\<close>
theorem resample_nearest_neighbour:
  assumes "sps \<noteq> []" and "length sps = length svs"
  shows "\<exists>out. resample sps svs tps = Inr out \<and> length out = length tps \<and>
           set out \<subseteq> set svs \<and>
           (\<forall>k < length tps. \<exists>i. nearest_to sps (tps ! k) i \<and> out ! k = svs ! i)"
proof -
  let ?f = "\<lambda>t. snd (nearest t (hd (zip sps svs)) (tl (zip sps svs)))"
  have run: "resample sps svs tps = Inr (map ?f tps)"
    using assms by (simp add: resample_def)
  have pick: "\<exists>i. nearest_to sps t i \<and> ?f t = svs ! i" for t
    using nearest_in_zip [OF assms] .
  have "?f t \<in> set svs" for t
  proof -
    from pick [of t] obtain i where "nearest_to sps t i" "?f t = svs ! i" by blast
    then show ?thesis using assms(2) by (simp add: nearest_to_def)
  qed
  then have sub: "set (map ?f tps) \<subseteq> set svs" by auto
  have "\<forall>k < length tps. \<exists>i. nearest_to sps (tps ! k) i \<and> map ?f tps ! k = svs ! i"
    using pick by simp
  with run sub show ?thesis by simp
qed

theorem resample_nearest_neighbour_witness:
  "[(0, 0), (10, 0)] \<noteq> ([] :: point list) \<and>
   length [(0, 0), (10, 0) :: point] = length [5, 50 :: real] \<and>
   resample [(0, 0), (10, 0)] [5, 50] [(1, 0), (9, 0)] = Inr [5, 50]"
proof -
  have h: "[(0, 0), (10, 0)] \<noteq> ([] :: point list)"
     "length [(0, 0), (10, 0) :: point] = length [5, 50 :: real]"
    by simp_all
  have "resample [(0, 0), (10, 0)] [5, 50] [(1, 0), (9, 0)] = Inr [5, 50]"
    by (simp add: resample_def sq_dist_def)
  with resample_nearest_neighbour [OF h, of "[(1, 0), (9, 0)]"] h show ?thesis
    by simp
qed

section \<open>Claim about draping\<close>

text \<open>
  Claim C6. For every vertex of the elevation mesh, the draped vertex has the same planar
  position; its elevation is \<open>maxElevation\<close> when the source elevation exceeds it and the
  source elevation otherwise; and its texture coordinate is the one of its planar position,
  whatever its elevation and the ceiling.
\<close>
theorem drape_clamps_elevation_only:
  assumes "raster_crs r = mesh_crs m"
  shows "\<exists>d. drape r m maxElevation = Inr d \<and>
           length (vertices (drapedMesh d)) = length (vertices m) \<and>
           length (textureCoordinates d) = length (vertices m) \<and>
           (\<forall>i < length (vertices m).
              xy (vertices (drapedMesh d) ! i) = xy (vertices m ! i) \<and>
              snd (snd (vertices (drapedMesh d) ! i)) =
                (if maxElevation < snd (snd (vertices m ! i)) then maxElevation
                 else snd (snd (vertices m ! i))) \<and>
              textureCoordinates d ! i = texture_coordinate r (xy (vertices m ! i)))"
  using assms
  by (simp add: drape_def clamp_elevation_def xy_def split: prod.splits)

theorem drape_clamps_elevation_only_witness:
  "raster_crs ortho = mesh_crs terrain \<and>
   map_sum id (\<lambda>d. vertices (drapedMesh d)) (drape ortho terrain zmax)
     = Inr [(966860, 6446505, 2400), (967275, 6446800, 3000)] \<and>
   map_sum id textureCoordinates (drape ortho terrain zmax) = Inr [(0, 0), (1, 1)]"
proof -
  have h: "raster_crs ortho = mesh_crs terrain" by (simp add: ortho_def terrain_def)
  have "map_sum id (\<lambda>d. vertices (drapedMesh d)) (drape ortho terrain zmax)
     = Inr [(966860, 6446505, 2400), (967275, 6446800, 3000)]"
    by (simp add: drape_def ortho_def terrain_def zmax_def clamp_elevation_def)
  moreover have "map_sum id textureCoordinates (drape ortho terrain zmax) = Inr [(0, 0), (1, 1)]"
    by (simp add: drape_def ortho_def terrain_def texture_coordinate_def unit_clamp_def xy_def)
  ultimately show ?thesis
    using drape_clamps_elevation_only [OF h, of zmax] h by simp
qed

end
